theory Spec2Isabelle
  imports Main
begin

section \<open>Values and errors of the proxy layer\<close>

text \<open>
  The exceptions the two source files raise. \<open>ValueError\<close> is what the Metadata Proxy
  and the Entry Handle raise for a value of the wrong type (the spec's kind
  \<open>TypeMismatch\<close>), \<open>KeyError\<close> is the lookup miss (\<open>KeyNotFound\<close>), \<open>TypeError\<close> is
  raised by the \<open>images\<close> setter (\<open>TypeMismatch\<close>), \<open>RuntimeError\<close> by the Entry Handle
  without image data, \<open>Exception_unsupported_file\<close> is \<^verbatim>\<open>Exception("unsupported file")\<close>
  (\<open>UnsupportedFormat\<close>), and \<open>StopIteration\<close> ends an iteration. \<open>JavaException\<close> is an
  exception of the external store: the source files catch none, so it reaches the
  caller (the spec's \<open>RegistrationFailed\<close>, and the failures of building a reader and
  of generating a thumbnail).
\<close>

datatype error =
    ValueError
  | KeyError
  | TypeError
  | RuntimeError
  | Exception_unsupported_file
  | StopIteration
  | JavaException

section \<open>The external store\<close>

text \<open>
  Modelled from the spec: the external entry, its image data, the readers and their
  builders are objects of the external project store (section 6 of the spec, External
  Entry and Server/Reader Construction); their classes are not among the sources. The
  records below hold the state that the accessors used by the two source files read and
  write; a field is named after the accessor that reads it, and \<open>None\<close> stands for the
  store's null.
\<close>

record ImageServer =
  getDisplayableImageName :: string
  nZSlices :: int
  defaultThumbnailAvailable :: "int \<Rightarrow> int \<Rightarrow> bool"

text \<open>
  Modelled from the spec: \<^verbatim>\<open>server.getDefaultThumbnail(z, t)\<close> (section 6,
  \<open>reader.thumbnail\<close>) returns the image of the plane asked for, kept symbolic, or fails
  when the reader cannot produce it (section 4.4, thumbnail-generation failure).
\<close>

datatype BufferedImage = DefaultThumbnail ImageServer int int

definition getDefaultThumbnail :: "ImageServer \<Rightarrow> int \<Rightarrow> int \<Rightarrow> error + BufferedImage" where
  "getDefaultThumbnail server z t =
     (if defaultThumbnailAvailable server z t then Inr (DefaultThumbnail server z t)
      else Inl JavaException)"

text \<open>
  Modelled from the spec: a builder either builds its reader (section 6, \<open>build\<close>) or
  fails to; \<open>ServerBuilder None\<close> is a builder whose \<open>build()\<close> raises.
\<close>

datatype ServerBuilder = ServerBuilder "ImageServer option"

fun build :: "ServerBuilder \<Rightarrow> error + ImageServer" where
  "build (ServerBuilder None) = Inl JavaException"
| "build (ServerBuilder (Some server)) = Inr server"

record ImageData =
  isChanged :: bool
  getHierarchy :: nat

record DefaultProjectImageEntry =
  getID :: nat
  getImageName :: string
  getOriginalImageName :: "string option"
  getDescription :: "string option"
  getThumbnail :: "BufferedImage option"
  getMetadataMap :: "string \<rightharpoonup> string"
  readImageData :: "ImageData option"
  savedImageData :: "ImageData list"

text \<open>
  Modelled from the spec: the entry's metadata accessors (section 6: metadata
  get/set/delete) act on the entry's key/value map; a lookup of an absent key gives the
  store's null.
\<close>

definition putMetadataValue ::
  "string \<Rightarrow> string \<Rightarrow> DefaultProjectImageEntry \<Rightarrow> DefaultProjectImageEntry" where
  "putMetadataValue k v entry = entry\<lparr>getMetadataMap := (getMetadataMap entry)(k \<mapsto> v)\<rparr>"

definition removeMetadataValue ::
  "string \<Rightarrow> DefaultProjectImageEntry \<Rightarrow> DefaultProjectImageEntry" where
  "removeMetadataValue k entry = entry\<lparr>getMetadataMap := (getMetadataMap entry)(k := None)\<rparr>"

definition getMetadataValue :: "string \<Rightarrow> DefaultProjectImageEntry \<Rightarrow> string option" where
  "getMetadataValue k entry = getMetadataMap entry k"

text \<open>
  Modelled from the spec: \<open>saveImageData\<close> is the store's write of image data (section
  6: image-data write, changed-flag). The data handed over is appended to the entry's
  list of writes, so the length of \<open>savedImageData\<close> counts the writes, and the image
  data is no longer reported as changed since the last save.
\<close>

definition saveImageData ::
  "ImageData \<Rightarrow> DefaultProjectImageEntry \<Rightarrow> DefaultProjectImageEntry \<times> ImageData" where
  "saveImageData data entry =
     (entry\<lparr>savedImageData := savedImageData entry @ [data]\<rparr>, data\<lparr>isChanged := False\<rparr>)"

text \<open>
  Modelled from the spec: the project of the external store and the format detection
  (section 6: \<open>list_entries\<close>, \<open>entry_count\<close>, \<open>add_entry\<close>, \<open>find_builders\<close>); their
  classes are not among the sources. A project holds its entry objects by reference:
  \<open>getImageList\<close> is the listing, in the store's order, and \<open>entries\<close> gives the state of
  the object behind a reference. What the store makes of a builder it is asked to
  register is the store's own business, so it is a part of the project's state:
  \<open>newImageEntry\<close> is \<open>None\<close> for a builder the store rejects, and otherwise the entry
  object the store creates for it (for which image data may or may not be readable).
\<close>

record DefaultProject =
  getImageList :: "nat list"
  entries :: "nat \<Rightarrow> DefaultProjectImageEntry"
  newImageEntry :: "ServerBuilder \<Rightarrow> DefaultProjectImageEntry option"

text \<open>Modelled from the spec: \<open>size()\<close> is the store's count of entries (\<open>entry_count\<close>).\<close>

definition project_size :: "DefaultProject \<Rightarrow> nat" where
  "project_size project = length (getImageList project)"

text \<open>
  Modelled from the spec: the reference the store gives to an entry it creates is one
  that the project does not list: the successor of the largest reference listed.
\<close>

definition new_reference :: "DefaultProject \<Rightarrow> nat" where
  "new_reference project = Suc (fold max (getImageList project) 0)"

text \<open>
  Modelled from the spec: \<open>addImage\<close> (\<open>add_entry\<close>) fails, leaving the project as it is,
  when the store rejects the builder (section 4.4, \<open>RegistrationFailed\<close>); otherwise it
  puts the entry the store creates at the end of the listing and returns its reference.
  \<open>setImageName\<close> and \<open>setThumbnail\<close> write to the entry behind a reference.
\<close>

definition addImage ::
  "ServerBuilder \<Rightarrow> DefaultProject \<Rightarrow> (error + nat) \<times> DefaultProject" where
  "addImage server_builder project =
     (case newImageEntry project server_builder of
        None \<Rightarrow> (Inl JavaException, project)
      | Some created \<Rightarrow>
          (let entry = new_reference project in
           (Inr entry,
            project\<lparr>getImageList := getImageList project @ [entry],
                    entries := (entries project)(entry := created\<lparr>getID := entry\<rparr>)\<rparr>)))"

definition setImageName :: "nat \<Rightarrow> string \<Rightarrow> DefaultProject \<Rightarrow> DefaultProject" where
  "setImageName entry name project =
     project\<lparr>entries := (entries project)(entry := (entries project entry)\<lparr>getImageName := name\<rparr>)\<rparr>"

definition setThumbnail :: "nat \<Rightarrow> BufferedImage \<Rightarrow> DefaultProject \<Rightarrow> DefaultProject" where
  "setThumbnail entry thumbnail project =
     project\<lparr>entries :=
       (entries project)(entry := (entries project entry)\<lparr>getThumbnail := Some thumbnail\<rparr>)\<rparr>"

record UriImageSupport =
  getBuilders :: "ServerBuilder list"

text \<open>
  What \<open>add\<close> reads from outside the project: \<open>absolute\<close> is
  \<^verbatim>\<open>str(pathlib.Path(filename).absolute())\<close>, which depends on the working directory, and
  \<open>getPreferredUriImageSupport\<close> is the format detection, \<open>None\<close> when it finds no
  support for the location.
\<close>

record environment =
  absolute :: "string \<Rightarrow> string"
  getPreferredUriImageSupport :: "string \<Rightarrow> UriImageSupport option"

section \<open>Python objects of the proxy layer\<close>

text \<open>
  Modelled from the spec: \<open>QuPathPathObjectHierarchy\<close> (module \<open>paquo.hierarchy\<close>) is not
  among the sources. The spec treats the Hierarchy view as an opaque object bound to the
  image data's hierarchy; an instance is its Python identity and the hierarchy of the
  store it wraps.
\<close>

record QuPathPathObjectHierarchy =
  python_id :: nat
  java_hierarchy :: nat

text \<open>
  The Entry Handle. \<open>java_object\<close> and \<open>image_data\<close> hold the state of the two objects of
  the store that the handle refers to; \<open>hierarchy_slot\<close> is the slot of the instance
  dictionary in which \<open>functools.cached_property\<close> keeps the value of \<open>hierarchy\<close>
  (absent until the first access).
\<close>

record QuPathProjectImageEntry =
  java_object :: DefaultProjectImageEntry
  image_data :: ImageData
  hierarchy_slot :: "QuPathPathObjectHierarchy option"

text \<open>
  The objects a caller can hand to the proxies: strings and other scalars, an entry of
  the external store, an Entry Handle. \<open>isinstance(x, str)\<close> is \<open>is_str\<close>,
  \<open>isinstance(x, DefaultProjectImageEntry)\<close> is \<open>is_DefaultProjectImageEntry\<close> and
  \<open>isinstance(x, ProjectImageEntry)\<close> is \<open>is_ProjectImageEntry\<close>.
\<close>

datatype pyobject =
    PyStr string
  | PyInt int
  | PyNone
  | PyJavaEntry DefaultProjectImageEntry
  | PyImageEntry QuPathProjectImageEntry

fun is_str :: "pyobject \<Rightarrow> bool" where
  "is_str (PyStr s) = True"
| "is_str other = False"

fun is_DefaultProjectImageEntry :: "pyobject \<Rightarrow> bool" where
  "is_DefaultProjectImageEntry (PyJavaEntry entry) = True"
| "is_DefaultProjectImageEntry other = False"

fun is_ProjectImageEntry :: "pyobject \<Rightarrow> bool" where
  "is_ProjectImageEntry (PyImageEntry handle) = True"
| "is_ProjectImageEntry other = False"

section \<open>Metadata Proxy: \<open>_ProjectImageEntryMetadata\<close>\<close>

text \<open>
  The proxy holds only \<open>_entry\<close>; each method is a function of the entry's state, and a
  method that writes returns its result together with the entry's state afterwards. The
  \<open>isinstance\<close> checks are the \<open>case\<close> on the object: only a \<open>PyStr\<close> passes, and
  \<open>String(str(k))\<close> of a string is that string.
\<close>

definition Metadata_setitem ::
  "pyobject \<Rightarrow> pyobject \<Rightarrow> DefaultProjectImageEntry
     \<Rightarrow> (error + unit) \<times> DefaultProjectImageEntry" where
  "Metadata_setitem k v entry =
     (case k of
        PyStr ks \<Rightarrow>
          (case v of
             PyStr vs \<Rightarrow> (Inr (), putMetadataValue ks vs entry)
           | _ \<Rightarrow> (Inl ValueError, entry))
      | _ \<Rightarrow> (Inl ValueError, entry))"

definition Metadata_delitem ::
  "pyobject \<Rightarrow> DefaultProjectImageEntry \<Rightarrow> (error + unit) \<times> DefaultProjectImageEntry" where
  "Metadata_delitem k entry =
     (case k of
        PyStr ks \<Rightarrow> (Inr (), removeMetadataValue ks entry)
      | _ \<Rightarrow> (Inl ValueError, entry))"

definition Metadata_getitem :: "pyobject \<Rightarrow> DefaultProjectImageEntry \<Rightarrow> error + string" where
  "Metadata_getitem k entry =
     (case k of
        PyStr ks \<Rightarrow>
          (case getMetadataValue ks entry of
             None \<Rightarrow> Inl KeyError
           | Some v \<Rightarrow> Inr v)
      | _ \<Rightarrow> Inl ValueError)"

section \<open>Entry Handle: \<open>QuPathProjectImageEntry\<close>\<close>

text \<open>
  \<open>__init__\<close>: anything but an entry of the store is refused with \<open>ValueError\<close>; the
  image data is read at once and a handle without image data is refused with
  \<open>RuntimeError\<close>. The new instance has no cached \<open>hierarchy\<close>.
\<close>

definition QuPathProjectImageEntry_init :: "pyobject \<Rightarrow> error + QuPathProjectImageEntry" where
  "QuPathProjectImageEntry_init entry =
     (case entry of
        PyJavaEntry e \<Rightarrow>
          (case readImageData e of
             None \<Rightarrow> Inl RuntimeError
           | Some data \<Rightarrow> Inr \<lparr>java_object = e, image_data = data, hierarchy_slot = None\<rparr>)
      | _ \<Rightarrow> Inl ValueError)"

text \<open>
  \<open>image_name_original\<close> returns \<^verbatim>\<open>str(org_name) if org_name else None\<close>: the store's
  null and the empty string are both false in Python.
\<close>

definition image_name_original :: "QuPathProjectImageEntry \<Rightarrow> string option" where
  "image_name_original self =
     (case getOriginalImageName (java_object self) of
        None \<Rightarrow> None
      | Some org_name \<Rightarrow> if org_name \<noteq> [] then Some org_name else None)"

definition description :: "QuPathProjectImageEntry \<Rightarrow> string" where
  "description self =
     (case getDescription (java_object self) of
        None \<Rightarrow> []
      | Some text \<Rightarrow> text)"

text \<open>
  Modelled from the spec: constructing a \<open>QuPathPathObjectHierarchy\<close> (not among the
  sources) allocates a new Python object around the given hierarchy of the store. The
  number of objects allocated so far is threaded through as the interpreter's state: it
  gives the new object its identity and counts the constructions.
\<close>

definition new_QuPathPathObjectHierarchy :: "nat \<Rightarrow> nat \<Rightarrow> QuPathPathObjectHierarchy \<times> nat" where
  "new_QuPathPathObjectHierarchy java_h allocated =
     (\<lparr>python_id = allocated, java_hierarchy = java_h\<rparr>, Suc allocated)"

text \<open>
  \<open>hierarchy\<close> is a \<open>functools.cached_property\<close>: an access returns the value in the
  instance's slot when there is one, and otherwise runs the method body, stores its
  result in the slot and returns it.
\<close>

definition hierarchy ::
  "QuPathProjectImageEntry \<Rightarrow> nat
     \<Rightarrow> QuPathPathObjectHierarchy \<times> QuPathProjectImageEntry \<times> nat" where
  "hierarchy self allocated =
     (case hierarchy_slot self of
        Some cached \<Rightarrow> (cached, self, allocated)
      | None \<Rightarrow>
          (let (h, allocated') =
                 new_QuPathPathObjectHierarchy (getHierarchy (image_data self)) allocated
           in (h, self\<lparr>hierarchy_slot := Some h\<rparr>, allocated')))"

text \<open>A caller reading \<open>entry.hierarchy\<close> \<open>n\<close> times in a row, collecting what it got.\<close>

fun hierarchy_accesses ::
  "nat \<Rightarrow> QuPathProjectImageEntry \<Rightarrow> nat
     \<Rightarrow> QuPathPathObjectHierarchy list \<times> QuPathProjectImageEntry \<times> nat" where
  "hierarchy_accesses 0 self allocated = ([], self, allocated)"
| "hierarchy_accesses (Suc n) self allocated =
     (let (h, self1, allocated1) = hierarchy self allocated;
          (hs, self2, allocated2) = hierarchy_accesses n self1 allocated1
      in (h # hs, self2, allocated2))"

definition save :: "QuPathProjectImageEntry \<Rightarrow> QuPathProjectImageEntry" where
  "save self =
     (if isChanged (image_data self)
      then (let (entry, data) = saveImageData (image_data self) (java_object self)
            in self\<lparr>java_object := entry, image_data := data\<rparr>)
      else self)"

section \<open>Entry Collection Proxy: \<open>_ProjectImageEntriesProxy\<close>\<close>

text \<open>
  The proxy object: \<open>p_project\<close> is \<open>_project\<close> and \<open>p_it\<close> is \<open>_it\<close>, the iterator over a
  listing of the project, held as the references it has yet to yield. \<open>__init__\<close> sets
  \<open>_it\<close> to the iterator of the empty tuple.
\<close>

record ProjectImageEntriesProxy =
  p_project :: DefaultProject
  p_it :: "nat list"

definition ProjectImageEntriesProxy_init :: "DefaultProject \<Rightarrow> ProjectImageEntriesProxy" where
  "ProjectImageEntriesProxy_init project = \<lparr>p_project = project, p_it = []\<rparr>"

text \<open>
  Modelled from the spec: \<open>ProjectImageEntry\<close> (module \<open>paquo.objects.images\<close>) is not among
  the sources. It is the spec's Entry Handle (section 4.3), constructed from an entry of
  the store as \<open>QuPathProjectImageEntry\<close> is.
\<close>

definition ProjectImageEntry :: "nat \<Rightarrow> DefaultProject \<Rightarrow> error + QuPathProjectImageEntry" where
  "ProjectImageEntry entry project = QuPathProjectImageEntry_init (PyJavaEntry (entries project entry))"

definition discard :: "QuPathProjectImageEntry \<Rightarrow> ProjectImageEntriesProxy \<Rightarrow> ProjectImageEntriesProxy" where
  "discard x self = self"

text \<open>
  \<open>add\<close>: \<open>pathlib.Path\<close> raises \<open>TypeError\<close> for an object that is not a path; the
  thumbnail is \<^verbatim>\<open>server.getDefaultThumbnail(server.nZSlices() // 2, 0)\<close>, and \<open>//\<close> on
  integers is \<open>div\<close>. The statements run in the source's order, and an exception of a
  call to the store, or of \<open>ProjectImageEntry(entry)\<close>, ends \<open>add\<close> with the project as
  the statements before it left it: the entry is registered before the reader is built.
\<close>

definition add ::
  "environment \<Rightarrow> pyobject \<Rightarrow> ProjectImageEntriesProxy
     \<Rightarrow> (error + QuPathProjectImageEntry) \<times> ProjectImageEntriesProxy" where
  "add env filename self =
     (case filename of
        PyStr path \<Rightarrow>
          (let img_path = absolute env path in
           case getPreferredUriImageSupport env img_path of
             None \<Rightarrow> (Inl Exception_unsupported_file, self)
           | Some support \<Rightarrow>
               (case getBuilders support of
                  [] \<Rightarrow> (Inl Exception_unsupported_file, self)
                | server_builder # others \<Rightarrow>
                    (case addImage server_builder (p_project self) of
                       (Inl e, project1) \<Rightarrow> (Inl e, self\<lparr>p_project := project1\<rparr>)
                     | (Inr entry, project1) \<Rightarrow>
                         (case build server_builder of
                            Inl e \<Rightarrow> (Inl e, self\<lparr>p_project := project1\<rparr>)
                          | Inr server \<Rightarrow>
                              (let project2 =
                                     setImageName entry (getDisplayableImageName server) project1
                               in case getDefaultThumbnail server (nZSlices server div 2) 0 of
                                    Inl e \<Rightarrow> (Inl e, self\<lparr>p_project := project2\<rparr>)
                                  | Inr thumbnail \<Rightarrow>
                                      (let project3 = setThumbnail entry thumbnail project2
                                       in (ProjectImageEntry entry project3,
                                           self\<lparr>p_project := project3\<rparr>)))))))
      | _ \<Rightarrow> (Inl TypeError, self))"

definition proxy_len :: "ProjectImageEntriesProxy \<Rightarrow> nat" where
  "proxy_len self = project_size (p_project self)"

definition proxy_contains :: "pyobject \<Rightarrow> ProjectImageEntriesProxy \<Rightarrow> bool" where
  "proxy_contains x self =
     (if \<not> is_DefaultProjectImageEntry x then False
      else False)"

text \<open>\<open>__iter__\<close> returns \<open>self\<close>: the result is the proxy, with its \<open>_it\<close> replaced.\<close>

definition proxy_iter :: "ProjectImageEntriesProxy \<Rightarrow> ProjectImageEntriesProxy" where
  "proxy_iter self = self\<lparr>p_it := getImageList (p_project self)\<rparr>"

definition proxy_next ::
  "ProjectImageEntriesProxy \<Rightarrow> (error + QuPathProjectImageEntry) \<times> ProjectImageEntriesProxy" where
  "proxy_next self =
     (case p_it self of
        [] \<Rightarrow> (Inl StopIteration, self)
      | image_entry # rest \<Rightarrow>
          (ProjectImageEntry image_entry (p_project self), self\<lparr>p_it := rest\<rparr>))"

text \<open>
  \<open>pop\<close> and \<open>clear\<close> are inherited from \<open>collections.abc.MutableSet\<close>: \<open>pop\<close> takes the
  first element of an iteration (\<open>KeyError\<close> when there is none), discards it and
  returns it; \<open>clear\<close> calls \<open>pop\<close> until it raises \<open>KeyError\<close>. The loop of \<open>clear\<close> need
  not end, so \<open>clear\<close> returns \<open>None\<close> when it does not return.
\<close>

definition pop ::
  "ProjectImageEntriesProxy \<Rightarrow> (error + QuPathProjectImageEntry) \<times> ProjectImageEntriesProxy" where
  "pop self =
     (let it = proxy_iter self in
      case proxy_next it of
        (Inl e, self1) \<Rightarrow> (if e = StopIteration then (Inl KeyError, self1) else (Inl e, self1))
      | (Inr v, self1) \<Rightarrow> (Inr v, discard v self1))"

partial_function (option) clear ::
  "ProjectImageEntriesProxy \<Rightarrow> ((error + unit) \<times> ProjectImageEntriesProxy) option" where
  "clear self =
     (case pop self of
        (Inl e, self1) \<Rightarrow> (if e = KeyError then Some (Inr (), self1) else Some (Inl e, self1))
      | (Inr v, self1) \<Rightarrow> clear self1)"

text \<open>
  The proxy as an object in memory. \<open>iter(x)\<close> on the proxy at address \<open>self\<close> calls
  \<open>__iter__\<close>, which changes the object and returns its own address; \<open>next(x)\<close> calls
  \<open>__next__\<close> of the object at the address it is given.
\<close>

type_synonym pystore = "nat \<Rightarrow> ProjectImageEntriesProxy"

definition py_iter :: "nat \<Rightarrow> pystore \<Rightarrow> nat \<times> pystore" where
  "py_iter self store = (self, store(self := proxy_iter (store self)))"

definition py_next :: "nat \<Rightarrow> pystore \<Rightarrow> (error + QuPathProjectImageEntry) \<times> pystore" where
  "py_next it store =
     (let (result, self1) = proxy_next (store it) in (result, store(it := self1)))"

section \<open>Project Handle: \<open>QuPathProject\<close>\<close>

text \<open>
  The handle's \<open>_project\<close> is the project its \<open>_image_entries_proxy\<close> holds, so the
  state of a \<open>QuPathProject\<close> is that proxy. The setter of \<open>images\<close> runs two loops: the
  first checks every element and leaves \<open>_images\<close> (here \<open>images_list\<close>) as it is, the second adds every
  element of \<open>_images\<close>.
\<close>

fun images_check :: "pyobject list \<Rightarrow> pyobject list \<Rightarrow> error + pyobject list" where
  "images_check [] images_list = Inr images_list"
| "images_check (img # rest) images_list =
     (if \<not> is_ProjectImageEntry img then Inl TypeError
      else images_check rest images_list)"

fun images_add_all ::
  "environment \<Rightarrow> pyobject list \<Rightarrow> ProjectImageEntriesProxy
     \<Rightarrow> (error + unit) \<times> ProjectImageEntriesProxy" where
  "images_add_all env [] self = (Inr (), self)"
| "images_add_all env (img # rest) self =
     (case add env img self of
        (Inl e, self1) \<Rightarrow> (Inl e, self1)
      | (Inr handle, self1) \<Rightarrow> images_add_all env rest self1)"

definition images_setter ::
  "environment \<Rightarrow> pyobject list \<Rightarrow> ProjectImageEntriesProxy
     \<Rightarrow> ((error + unit) \<times> ProjectImageEntriesProxy) option" where
  "images_setter env images self =
     (case images_check images [] of
        Inl e \<Rightarrow> Some (Inl e, self)
      | Inr images_list \<Rightarrow>
          (case clear self of
             None \<Rightarrow> None
           | Some (Inl e, self1) \<Rightarrow> Some (Inl e, self1)
           | Some (Inr u, self1) \<Rightarrow> Some (images_add_all env images_list self1)))"

definition QuPathProject_len :: "ProjectImageEntriesProxy \<Rightarrow> nat" where
  "QuPathProject_len self = proxy_len self"

section \<open>Notions used to state the properties\<close>

text \<open>
  The builders that the format detection yields for a path, as \<open>add\<close> asks for them: none
  when there is no support for the location, and the builders of the support otherwise.
\<close>

definition find_builders :: "environment \<Rightarrow> string \<Rightarrow> ServerBuilder list" where
  "find_builders env path =
     (case getPreferredUriImageSupport env (absolute env path) of
        None \<Rightarrow> []
      | Some support \<Rightarrow> getBuilders support)"

text \<open>A caller taking \<open>k\<close> elements from the iterator at address \<open>it\<close>, one \<open>next\<close> each.\<close>

fun py_nexts ::
  "nat \<Rightarrow> nat \<Rightarrow> pystore \<Rightarrow> (error + QuPathProjectImageEntry) list \<times> pystore" where
  "py_nexts 0 it store = ([], store)"
| "py_nexts (Suc k) it store =
     (let (result, store1) = py_next it store;
          (results, store2) = py_nexts k it store1
      in (result # results, store2))"

text \<open>
  The states of the proxy in which the loop of \<open>clear\<close> can come to an end: the project
  lists no entry, or no image data can be read for the first entry it lists.
\<close>

definition clear_may_return :: "ProjectImageEntriesProxy \<Rightarrow> bool" where
  "clear_may_return self \<longleftrightarrow>
     (case getImageList (p_project self) of
        [] \<Rightarrow> True
      | entry # rest \<Rightarrow> readImageData (entries (p_project self) entry) = None)"

subsection \<open>The bulk replace in the spec's words\<close>

text \<open>
  Section 4.4 of the spec words the assignment to \<open>images\<close> as: clear all current
  entries, then add each element of the replacement sequence in order, failing with
  \<open>TypeMismatch\<close> at the first element that is not an Entry Handle and leaving the
  collection as the elements before it left it. These definitions follow that wording,
  not the source; they are what \<open>images_setter\<close> is compared with.
\<close>

definition spec_add_handle ::
  "QuPathProjectImageEntry \<Rightarrow> ProjectImageEntriesProxy \<Rightarrow> ProjectImageEntriesProxy" where
  "spec_add_handle handle self =
     self\<lparr>p_project := (p_project self)
       \<lparr>getImageList := getImageList (p_project self) @ [getID (java_object handle)],
        entries := (entries (p_project self))(getID (java_object handle) := java_object handle)\<rparr>\<rparr>"

fun spec_add_each ::
  "pyobject list \<Rightarrow> ProjectImageEntriesProxy \<Rightarrow> (error + unit) \<times> ProjectImageEntriesProxy" where
  "spec_add_each [] self = (Inr (), self)"
| "spec_add_each (PyImageEntry handle # rest) self =
     spec_add_each rest (spec_add_handle handle self)"
| "spec_add_each (other # rest) self = (Inl TypeError, self)"

definition spec_images_replace ::
  "pyobject list \<Rightarrow> ProjectImageEntriesProxy \<Rightarrow> (error + unit) \<times> ProjectImageEntriesProxy" where
  "spec_images_replace images self =
     spec_add_each images (self\<lparr>p_project := (p_project self)\<lparr>getImageList := []\<rparr>\<rparr>)"

section \<open>Concrete inputs\<close>

text \<open>An entry of the store with two metadata keys, used as a concrete input.\<close>

definition sample_entry :: DefaultProjectImageEntry where
  "sample_entry =
     \<lparr>getID = 7, getImageName = ''slide.tiff'', getOriginalImageName = None,
      getDescription = None, getThumbnail = None,
      getMetadataMap = [''stain'' \<mapsto> ''HE'', ''site'' \<mapsto> ''A''],
      readImageData = Some \<lparr>isChanged = False, getHierarchy = 0\<rparr>,
      savedImageData = []\<rparr>"

text \<open>A handle on that entry, once with unchanged and once with changed image data.\<close>

definition sample_handle :: QuPathProjectImageEntry where
  "sample_handle =
     \<lparr>java_object = sample_entry,
      image_data = \<lparr>isChanged = False, getHierarchy = 0\<rparr>,
      hierarchy_slot = None\<rparr>"

definition changed_handle :: QuPathProjectImageEntry where
  "changed_handle = sample_handle\<lparr>image_data := \<lparr>isChanged = True, getHierarchy = 0\<rparr>\<rparr>"

text \<open>
  The entry that the sample store creates for a builder: no metadata, and image data
  that can be read.
\<close>

definition created_entry :: DefaultProjectImageEntry where
  "created_entry =
     \<lparr>getID = 0, getImageName = [], getOriginalImageName = None,
      getDescription = None, getThumbnail = None, getMetadataMap = Map.empty,
      readImageData = Some \<lparr>isChanged = False, getHierarchy = 0\<rparr>,
      savedImageData = []\<rparr>"

text \<open>
  A project that lists two entries and accepts every builder, its proxy, a memory that
  holds that proxy, and an environment in which \<open>sample.tiff\<close> has a builder,
  \<open>broken.tiff\<close> a builder that fails to build its reader, \<open>flat.tiff\<close> a builder whose
  reader has no thumbnail, and \<open>empty.bin\<close> a support without builders.
\<close>

definition sample_project :: DefaultProject where
  "sample_project =
     \<lparr>getImageList = [0, 1],
      entries = (\<lambda>entry. sample_entry\<lparr>getID := entry\<rparr>),
      newImageEntry = (\<lambda>server_builder. Some created_entry)\<rparr>"

definition sample_proxy :: ProjectImageEntriesProxy where
  "sample_proxy = ProjectImageEntriesProxy_init sample_project"

definition sample_store :: pystore where
  "sample_store = (\<lambda>address. sample_proxy)"

definition sample_server :: ImageServer where
  "sample_server =
     \<lparr>getDisplayableImageName = ''sample.tiff'', nZSlices = 5,
      defaultThumbnailAvailable = (\<lambda>z t. 0 \<le> z \<and> z < 5 \<and> t = 0)\<rparr>"

definition flat_server :: ImageServer where
  "flat_server =
     \<lparr>getDisplayableImageName = ''flat.tiff'', nZSlices = 1,
      defaultThumbnailAvailable = (\<lambda>z t. False)\<rparr>"

definition sample_env :: environment where
  "sample_env =
     \<lparr>absolute = (\<lambda>path. case path of CHR ''/'' # rest \<Rightarrow> path | _ \<Rightarrow> ''/data/'' @ path),
      getPreferredUriImageSupport = (\<lambda>location.
        if location = ''/data/sample.tiff''
        then Some \<lparr>getBuilders = [ServerBuilder (Some sample_server)]\<rparr>
        else if location = ''/data/broken.tiff''
        then Some \<lparr>getBuilders = [ServerBuilder None]\<rparr>
        else if location = ''/data/flat.tiff''
        then Some \<lparr>getBuilders = [ServerBuilder (Some flat_server)]\<rparr>
        else if location = ''/data/empty.bin'' then Some \<lparr>getBuilders = []\<rparr>
        else None)\<rparr>"

text \<open>
  The same project with a store that rejects every builder, and with a store that
  creates entries for which no image data can be read.
\<close>

definition rejecting_proxy :: ProjectImageEntriesProxy where
  "rejecting_proxy =
     ProjectImageEntriesProxy_init
       (sample_project\<lparr>newImageEntry := (\<lambda>server_builder. None)\<rparr>)"

definition unreadable_proxy :: ProjectImageEntriesProxy where
  "unreadable_proxy =
     ProjectImageEntriesProxy_init
       (sample_project\<lparr>newImageEntry :=
          (\<lambda>server_builder. Some (created_entry\<lparr>readImageData := None\<rparr>))\<rparr>)"

section \<open>Properties of the Metadata Proxy\<close>

text \<open>
  C1: for every string key \<open>k\<close> and string value \<open>v\<close>, \<open>set(k, v)\<close> succeeds and a
  following \<open>get(k)\<close> returns \<open>v\<close>; \<open>delete(k)\<close> succeeds and a following \<open>get(k)\<close>
  fails with \<open>KeyError\<close> (the spec's \<open>KeyNotFound\<close>).
\<close>

theorem Metadata_set_get_delete_get:
  "fst (Metadata_setitem (PyStr k) (PyStr v) entry) = Inr ()
   \<and> Metadata_getitem (PyStr k) (snd (Metadata_setitem (PyStr k) (PyStr v) entry)) = Inr v
   \<and> fst (Metadata_delitem (PyStr k) entry) = Inr ()
   \<and> Metadata_getitem (PyStr k) (snd (Metadata_delitem (PyStr k) entry)) = Inl KeyError"
  by (simp add: Metadata_setitem_def Metadata_getitem_def Metadata_delitem_def
      putMetadataValue_def removeMetadataValue_def getMetadataValue_def)

theorem Metadata_set_get_delete_get_witness:
  "Metadata_getitem (PyStr ''stain'')
     (snd (Metadata_setitem (PyStr ''stain'') (PyStr ''IHC'') sample_entry)) = Inr ''IHC''
   \<and> Metadata_getitem (PyStr ''stain'')
     (snd (Metadata_delitem (PyStr ''stain'') sample_entry)) = Inl KeyError"
  using Metadata_set_get_delete_get [of "''stain''" "''IHC''" sample_entry] by simp

text \<open>
  C5: when the key or the value is not a string, \<open>set(k, v)\<close> fails with \<open>ValueError\<close>
  (the spec's \<open>TypeMismatch\<close>) and the entry of the external store is returned as it
  was: no write reaches the store.
\<close>

theorem Metadata_setitem_non_string:
  assumes "\<not> is_str k \<or> \<not> is_str v"
  shows "Metadata_setitem k v entry = (Inl ValueError, entry)"
proof (cases k)
  case (PyStr ks)
  with assms have "\<not> is_str v" by simp
  with PyStr show ?thesis by (cases v) (simp_all add: Metadata_setitem_def)
qed (simp_all add: Metadata_setitem_def)

theorem Metadata_setitem_non_string_witness:
  "\<not> is_str (PyInt 3)
   \<and> Metadata_setitem (PyInt 3) (PyStr ''HE'') sample_entry = (Inl ValueError, sample_entry)
   \<and> \<not> is_str PyNone
   \<and> Metadata_setitem (PyStr ''stain'') PyNone sample_entry = (Inl ValueError, sample_entry)"
proof -
  have key: "\<not> is_str (PyInt 3) \<or> \<not> is_str (PyStr ''HE'')" by simp
  have val: "\<not> is_str (PyStr ''stain'') \<or> \<not> is_str PyNone" by simp
  show ?thesis
    using Metadata_setitem_non_string [OF key, of sample_entry]
      Metadata_setitem_non_string [OF val, of sample_entry]
    by simp
qed

section \<open>Properties of the Entry Handle\<close>

text \<open>
  C6: \<open>save()\<close> writes the handle's image data to the external store exactly when the
  image data is reported as changed: then the store's list of writes grows by that one
  image data, and when no change is reported the handle and the store are as before
  (zero writes).
\<close>

theorem save_writes_iff_changed:
  "(isChanged (image_data self) \<longrightarrow>
      savedImageData (java_object (save self))
        = savedImageData (java_object self) @ [image_data self])
   \<and> (\<not> isChanged (image_data self) \<longrightarrow> save self = self)
   \<and> (length (savedImageData (java_object (save self)))
        = Suc (length (savedImageData (java_object self)))
      \<longleftrightarrow> isChanged (image_data self))"
  by (simp add: save_def saveImageData_def)

theorem save_writes_iff_changed_witness:
  "isChanged (image_data changed_handle)
   \<and> length (savedImageData (java_object (save changed_handle))) = 1
   \<and> \<not> isChanged (image_data sample_handle)
   \<and> save sample_handle = sample_handle"
  using save_writes_iff_changed [of changed_handle] save_writes_iff_changed [of sample_handle]
  by (simp add: changed_handle_def sample_handle_def sample_entry_def)

text \<open>
  C9: when the store's original-name record is the empty string,
  \<open>image_name_original\<close> returns \<open>None\<close>, as it does when there is no record; it returns
  a string only for a non-empty record, and then that record.
\<close>

theorem image_name_original_empty_is_None:
  "(getOriginalImageName (java_object self) = Some [] \<longrightarrow> image_name_original self = None)
   \<and> (getOriginalImageName (java_object self) = None \<longrightarrow> image_name_original self = None)
   \<and> (image_name_original self = Some name
        \<longleftrightarrow> getOriginalImageName (java_object self) = Some name \<and> name \<noteq> [])"
  by (auto simp: image_name_original_def split: option.splits)

theorem image_name_original_empty_is_None_witness:
  "getOriginalImageName
      (java_object (sample_handle\<lparr>java_object := sample_entry\<lparr>getOriginalImageName := Some []\<rparr>\<rparr>))
     = Some []
   \<and> image_name_original
        (sample_handle\<lparr>java_object := sample_entry\<lparr>getOriginalImageName := Some []\<rparr>\<rparr>) = None
   \<and> image_name_original sample_handle = None"
  using image_name_original_empty_is_None
      [of "sample_handle\<lparr>java_object := sample_entry\<lparr>getOriginalImageName := Some []\<rparr>\<rparr>"]
    image_name_original_empty_is_None [of sample_handle]
  by (simp add: sample_handle_def sample_entry_def)

section \<open>Properties of the Entry Handle's cached hierarchy\<close>

lemma hierarchy_cached:
  "hierarchy_slot self = Some cached \<Longrightarrow> hierarchy self allocated = (cached, self, allocated)"
  by (simp add: hierarchy_def)

lemma hierarchy_accesses_cached:
  "hierarchy_slot self = Some cached \<Longrightarrow>
     hierarchy_accesses n self allocated = (replicate n cached, self, allocated)"
  by (induction n) (simp_all add: hierarchy_cached)

lemma hierarchy_fills_slot:
  "hierarchy_slot (fst (snd (hierarchy self allocated))) = Some (fst (hierarchy self allocated))"
  by (simp add: hierarchy_def new_QuPathPathObjectHierarchy_def split: option.splits)

text \<open>
  C7: on a handle whose \<open>hierarchy\<close> has not been read yet, the first access constructs
  the Hierarchy view over the image data's hierarchy; in any run of accesses every
  access returns the object the first one returned, the handle stays as the first
  access left it, and the run constructs one object when the slot was empty and none
  otherwise: the construction runs at most once per handle.
\<close>

theorem hierarchy_identity_stable:
  "hierarchy_accesses (Suc n) self allocated
     = (replicate (Suc n) (fst (hierarchy self allocated)),
        fst (snd (hierarchy self allocated)),
        snd (snd (hierarchy self allocated)))
   \<and> snd (snd (hierarchy self allocated))
       = (if hierarchy_slot self = None then Suc allocated else allocated)
   \<and> (hierarchy_slot self = None \<longrightarrow>
        fst (hierarchy self allocated)
          = \<lparr>python_id = allocated, java_hierarchy = getHierarchy (image_data self)\<rparr>)"
proof -
  obtain h self1 allocated1 where first: "hierarchy self allocated = (h, self1, allocated1)"
    by (cases "hierarchy self allocated") auto
  have "hierarchy_slot self1 = Some h"
    using hierarchy_fills_slot [of self allocated] first by simp
  then have "hierarchy_accesses n self1 allocated1 = (replicate n h, self1, allocated1)"
    by (rule hierarchy_accesses_cached)
  with first have "hierarchy_accesses (Suc n) self allocated
     = (replicate (Suc n) h, self1, allocated1)"
    by simp
  moreover have "snd (snd (hierarchy self allocated))
       = (if hierarchy_slot self = None then Suc allocated else allocated)"
    by (simp add: hierarchy_def new_QuPathPathObjectHierarchy_def split: option.splits)
  moreover have "hierarchy_slot self = None \<longrightarrow>
        fst (hierarchy self allocated)
          = \<lparr>python_id = allocated, java_hierarchy = getHierarchy (image_data self)\<rparr>"
    by (simp add: hierarchy_def new_QuPathPathObjectHierarchy_def)
  ultimately show ?thesis using first by simp
qed

theorem hierarchy_identity_stable_witness:
  "QuPathProjectImageEntry_init (PyJavaEntry sample_entry) = Inr sample_handle
   \<and> hierarchy_slot sample_handle = None
   \<and> hierarchy_accesses 3 sample_handle 10
       = ([\<lparr>python_id = 10, java_hierarchy = 0\<rparr>, \<lparr>python_id = 10, java_hierarchy = 0\<rparr>,
           \<lparr>python_id = 10, java_hierarchy = 0\<rparr>],
          sample_handle\<lparr>hierarchy_slot := Some \<lparr>python_id = 10, java_hierarchy = 0\<rparr>\<rparr>, 11)"
  using hierarchy_identity_stable [of 2 sample_handle 10]
  by (simp add: sample_handle_def sample_entry_def QuPathProjectImageEntry_init_def
      hierarchy_def new_QuPathPathObjectHierarchy_def numeral_3_eq_3)

section \<open>Properties of the Entry Collection Proxy\<close>

text \<open>
  C2: \<open>contains(x)\<close> is to tell whether \<open>x\<close> is among the entries the store lists. The
  source returns \<open>False\<close> on both of its paths (the second is marked \<open>FIXME\<close>): for the
  project that lists the entries 0 and 1, the entry 0 is listed and \<open>contains\<close> of it is
  \<open>False\<close>.
\<close>

theorem proxy_contains_member_False:
  "0 \<in> set (getImageList (p_project sample_proxy))
   \<and> is_DefaultProjectImageEntry (PyJavaEntry (entries (p_project sample_proxy) 0))
   \<and> proxy_contains (PyJavaEntry (entries (p_project sample_proxy) 0)) sample_proxy = False"
  by (simp add: sample_proxy_def sample_project_def ProjectImageEntriesProxy_init_def
      proxy_contains_def)

lemma fold_max_ge: "a \<le> fold max xs (a::nat)"
proof (induction xs arbitrary: a)
  case Nil
  show ?case by simp
next
  case (Cons x xs)
  have "a \<le> max x a" by simp
  also have "max x a \<le> fold max xs (max x a)" by (rule Cons.IH)
  finally show ?case by simp
qed

lemma fold_max_bounds: "x \<in> set xs \<Longrightarrow> x \<le> fold max xs (a::nat)"
proof (induction xs arbitrary: a)
  case Nil
  then show ?case by simp
next
  case (Cons y xs)
  show ?case
  proof (cases "x = y")
    case True
    have "x \<le> max y a" using True by simp
    also have "max y a \<le> fold max xs (max y a)" by (rule fold_max_ge)
    finally show ?thesis by simp
  next
    case False
    with Cons.prems have "x \<in> set xs" by simp
    then show ?thesis using Cons.IH by simp
  qed
qed

lemma new_reference_not_listed: "new_reference project \<notin> set (getImageList project)"
proof
  assume "new_reference project \<in> set (getImageList project)"
  then have "new_reference project \<le> fold max (getImageList project) 0"
    by (rule fold_max_bounds)
  then show False by (simp add: new_reference_def)
qed

text \<open>
  C3, as the source has it: when the format detection yields at least one builder for
  the path, the store accepts the first builder, that builder builds its reader, the
  reader has its default thumbnail at plane \<open>nZSlices div 2\<close> and index 0, and image data
  can be read for the entry the store has created, then \<open>add\<close> returns an Entry Handle
  on that entry, which was not listed before and is now the last of the listing; the
  length of the collection has grown by one, the entry's name is the display name of
  the reader, and its thumbnail is that default thumbnail.
\<close>

theorem add_supported:
  assumes "find_builders env path = server_builder # others"
    and "newImageEntry (p_project self) server_builder = Some created"
    and "build server_builder = Inr server"
    and "defaultThumbnailAvailable server (nZSlices server div 2) 0"
    and "readImageData created = Some data"
  shows "(\<exists>handle. fst (add env (PyStr path) self) = Inr handle
            \<and> java_object handle
                = entries (p_project (snd (add env (PyStr path) self)))
                    (new_reference (p_project self)))
    \<and> new_reference (p_project self) \<notin> set (getImageList (p_project self))
    \<and> getImageList (p_project (snd (add env (PyStr path) self)))
           = getImageList (p_project self) @ [new_reference (p_project self)]
    \<and> proxy_len (snd (add env (PyStr path) self)) = proxy_len self + 1
    \<and> getImageName (entries (p_project (snd (add env (PyStr path) self)))
                             (new_reference (p_project self)))
           = getDisplayableImageName server
    \<and> getThumbnail (entries (p_project (snd (add env (PyStr path) self)))
                             (new_reference (p_project self)))
           = Some (DefaultThumbnail server (nZSlices server div 2) 0)"
proof -
  have builders: "getPreferredUriImageSupport env (absolute env path) \<noteq> None
      \<and> getBuilders (the (getPreferredUriImageSupport env (absolute env path)))
          = server_builder # others"
    using assms(1) by (auto simp: find_builders_def split: option.splits)
  then obtain support where support:
      "getPreferredUriImageSupport env (absolute env path) = Some support"
      "getBuilders support = server_builder # others"
    by auto
  have registered: "addImage server_builder (p_project self)
      = (Inr (new_reference (p_project self)),
         (p_project self)\<lparr>getImageList :=
              getImageList (p_project self) @ [new_reference (p_project self)],
            entries := (entries (p_project self))
              (new_reference (p_project self) :=
                 created\<lparr>getID := new_reference (p_project self)\<rparr>)\<rparr>)"
    using assms(2) by (simp add: addImage_def Let_def)
  have thumbnail: "getDefaultThumbnail server (nZSlices server div 2) 0
      = Inr (DefaultThumbnail server (nZSlices server div 2) 0)"
    using assms(4) by (simp add: getDefaultThumbnail_def)
  show ?thesis
    using support registered assms(3) thumbnail assms(5)
      new_reference_not_listed [of "p_project self"]
    by (simp add: add_def setImageName_def setThumbnail_def
        ProjectImageEntry_def QuPathProjectImageEntry_init_def proxy_len_def project_size_def
        Let_def)
qed

theorem add_supported_witness:
  "find_builders sample_env ''sample.tiff'' = [ServerBuilder (Some sample_server)]
   \<and> newImageEntry (p_project sample_proxy) (ServerBuilder (Some sample_server))
        = Some created_entry
   \<and> build (ServerBuilder (Some sample_server)) = Inr sample_server
   \<and> defaultThumbnailAvailable sample_server (nZSlices sample_server div 2) 0
   \<and> readImageData created_entry = Some \<lparr>isChanged = False, getHierarchy = 0\<rparr>
   \<and> proxy_len sample_proxy = 2
   \<and> proxy_len (snd (add sample_env (PyStr ''sample.tiff'') sample_proxy)) = 3
   \<and> getImageList (p_project (snd (add sample_env (PyStr ''sample.tiff'') sample_proxy)))
        = [0, 1, 2]
   \<and> getImageName (entries (p_project (snd (add sample_env (PyStr ''sample.tiff'') sample_proxy))) 2)
        = ''sample.tiff''
   \<and> getThumbnail (entries (p_project (snd (add sample_env (PyStr ''sample.tiff'') sample_proxy))) 2)
        = Some (DefaultThumbnail sample_server 2 0)"
proof -
  have b: "find_builders sample_env ''sample.tiff'' = [ServerBuilder (Some sample_server)]"
    by (simp add: find_builders_def sample_env_def)
  have c: "newImageEntry (p_project sample_proxy) (ServerBuilder (Some sample_server))
        = Some created_entry"
    by (simp add: sample_proxy_def sample_project_def ProjectImageEntriesProxy_init_def)
  have s: "build (ServerBuilder (Some sample_server)) = Inr sample_server" by simp
  have t: "defaultThumbnailAvailable sample_server (nZSlices sample_server div 2) 0"
    by (simp add: sample_server_def)
  have r: "readImageData created_entry = Some \<lparr>isChanged = False, getHierarchy = 0\<rparr>"
    by (simp add: created_entry_def)
  have l: "proxy_len sample_proxy = 2"
    by (simp add: proxy_len_def project_size_def sample_proxy_def sample_project_def
        ProjectImageEntriesProxy_init_def)
  have n: "new_reference (p_project sample_proxy) = 2"
    and g: "getImageList (p_project sample_proxy) = [0, 1]"
    by (simp_all add: new_reference_def sample_proxy_def sample_project_def
        ProjectImageEntriesProxy_init_def)
  have z: "nZSlices sample_server div 2 = 2"
    and d: "getDisplayableImageName sample_server = ''sample.tiff''"
    by (simp_all add: sample_server_def)
  show ?thesis
    using add_supported [OF b c s t r] b c s t r l n g z d by simp
qed

text \<open>
  C3 as the claim words it, for every path with a builder, fails at four inputs, each
  with a builder for the path. A store that creates an entry without readable image
  data: the entry is registered, named and given its thumbnail, \<open>ProjectImageEntry\<close>
  raises \<open>RuntimeError\<close>, and the length is 3 with no handle returned. A store that
  rejects the builder: nothing is registered. A builder that fails to build its reader,
  and a reader without thumbnail: the entry is already registered when \<open>add\<close> fails.
\<close>

theorem add_supported_counterexample:
  "find_builders sample_env ''sample.tiff'' = [ServerBuilder (Some sample_server)]
   \<and> proxy_len unreadable_proxy = 2
   \<and> fst (add sample_env (PyStr ''sample.tiff'') unreadable_proxy) = Inl RuntimeError
   \<and> proxy_len (snd (add sample_env (PyStr ''sample.tiff'') unreadable_proxy)) = 3
   \<and> proxy_len rejecting_proxy = 2
   \<and> fst (add sample_env (PyStr ''sample.tiff'') rejecting_proxy) = Inl JavaException
   \<and> proxy_len (snd (add sample_env (PyStr ''sample.tiff'') rejecting_proxy)) = 2
   \<and> find_builders sample_env ''broken.tiff'' = [ServerBuilder None]
   \<and> fst (add sample_env (PyStr ''broken.tiff'') sample_proxy) = Inl JavaException
   \<and> proxy_len (snd (add sample_env (PyStr ''broken.tiff'') sample_proxy)) = 3
   \<and> find_builders sample_env ''flat.tiff'' = [ServerBuilder (Some flat_server)]
   \<and> fst (add sample_env (PyStr ''flat.tiff'') sample_proxy) = Inl JavaException
   \<and> proxy_len (snd (add sample_env (PyStr ''flat.tiff'') sample_proxy)) = 3"
proof -
  have b1: "find_builders sample_env ''sample.tiff'' = [ServerBuilder (Some sample_server)]"
    and b2: "find_builders sample_env ''broken.tiff'' = [ServerBuilder None]"
    and b3: "find_builders sample_env ''flat.tiff'' = [ServerBuilder (Some flat_server)]"
    by (simp_all add: find_builders_def sample_env_def)
  have l1: "proxy_len unreadable_proxy = 2" and l2: "proxy_len rejecting_proxy = 2"
    by (simp_all add: proxy_len_def project_size_def unreadable_proxy_def rejecting_proxy_def
        sample_project_def ProjectImageEntriesProxy_init_def)
  have unreadable: "fst (add sample_env (PyStr ''sample.tiff'') unreadable_proxy) = Inl RuntimeError
      \<and> proxy_len (snd (add sample_env (PyStr ''sample.tiff'') unreadable_proxy)) = 3"
    by (simp add: add_def sample_env_def unreadable_proxy_def sample_project_def
        ProjectImageEntriesProxy_init_def addImage_def new_reference_def Let_def
        getDefaultThumbnail_def sample_server_def setImageName_def setThumbnail_def
        ProjectImageEntry_def QuPathProjectImageEntry_init_def created_entry_def
        proxy_len_def project_size_def)
  have rejecting: "fst (add sample_env (PyStr ''sample.tiff'') rejecting_proxy) = Inl JavaException
      \<and> proxy_len (snd (add sample_env (PyStr ''sample.tiff'') rejecting_proxy)) = 2"
    by (simp add: add_def sample_env_def rejecting_proxy_def sample_project_def
        ProjectImageEntriesProxy_init_def addImage_def proxy_len_def project_size_def)
  have broken: "fst (add sample_env (PyStr ''broken.tiff'') sample_proxy) = Inl JavaException
      \<and> proxy_len (snd (add sample_env (PyStr ''broken.tiff'') sample_proxy)) = 3"
    by (simp add: add_def sample_env_def sample_proxy_def sample_project_def
        ProjectImageEntriesProxy_init_def addImage_def new_reference_def Let_def
        proxy_len_def project_size_def)
  have flat: "fst (add sample_env (PyStr ''flat.tiff'') sample_proxy) = Inl JavaException
      \<and> proxy_len (snd (add sample_env (PyStr ''flat.tiff'') sample_proxy)) = 3"
    by (simp add: add_def sample_env_def sample_proxy_def sample_project_def
        ProjectImageEntriesProxy_init_def addImage_def new_reference_def Let_def
        getDefaultThumbnail_def flat_server_def setImageName_def
        proxy_len_def project_size_def)
  from b1 b2 b3 l1 l2 unreadable rejecting broken flat show ?thesis by blast
qed

text \<open>
  C4: when the format detection yields no builder for the path (no support, or a
  support without builders), \<open>add\<close> fails with \<^verbatim>\<open>Exception("unsupported file")\<close> and the
  proxy and its project are as before: no entry is registered and the length is
  unchanged.
\<close>

theorem add_unsupported:
  assumes "find_builders env path = []"
  shows "add env (PyStr path) self = (Inl Exception_unsupported_file, self)
         \<and> proxy_len (snd (add env (PyStr path) self)) = proxy_len self"
  using assms by (simp add: add_def find_builders_def split: option.splits list.splits)

theorem add_unsupported_witness:
  "find_builders sample_env ''notes.txt'' = []
   \<and> find_builders sample_env ''empty.bin'' = []
   \<and> add sample_env (PyStr ''notes.txt'') sample_proxy = (Inl Exception_unsupported_file, sample_proxy)
   \<and> add sample_env (PyStr ''empty.bin'') sample_proxy = (Inl Exception_unsupported_file, sample_proxy)"
proof -
  have a: "find_builders sample_env ''notes.txt'' = []"
    by (simp add: find_builders_def sample_env_def)
  have b: "find_builders sample_env ''empty.bin'' = []"
    by (simp add: find_builders_def sample_env_def)
  show ?thesis
    using a b add_unsupported [OF a, of sample_proxy] add_unsupported [OF b, of sample_proxy]
    by simp
qed

subsection \<open>Iteration\<close>

lemma proxy_next_state: "snd (proxy_next self) = self\<lparr>p_it := tl (p_it self)\<rparr>"
  by (cases self) (simp add: proxy_next_def split: list.splits)

lemma py_next_state:
  "snd (py_next it store) = store(it := (store it)\<lparr>p_it := tl (p_it (store it))\<rparr>)"
proof -
  obtain result self1 where n: "proxy_next (store it) = (result, self1)"
    by (cases "proxy_next (store it)") auto
  then have "self1 = (store it)\<lparr>p_it := tl (p_it (store it))\<rparr>"
    using proxy_next_state [of "store it"] by simp
  with n show ?thesis by (simp add: py_next_def)
qed

lemma py_nexts_state:
  "snd (py_nexts k it store) = store(it := (store it)\<lparr>p_it := drop k (p_it (store it))\<rparr>)"
proof (induction k arbitrary: store)
  case 0
  show ?case by simp
next
  case (Suc k)
  have "snd (py_nexts (Suc k) it store) = snd (py_nexts k it (snd (py_next it store)))"
    by (simp split: prod.splits)
  also have "\<dots> = store(it := (store it)\<lparr>p_it := drop k (tl (p_it (store it)))\<rparr>)"
    by (simp add: Suc.IH py_next_state fun_eq_iff)
  finally show ?case by (simp add: drop_Suc)
qed

text \<open>
  C10: \<open>iter\<close> on the proxy returns the proxy's own address, after setting the proxy's
  one cursor to a new listing of the project. So the iterator of a second traversal is
  the iterator of the first, and starting the second after the first has taken \<open>k\<close>
  elements leaves memory exactly as a first start does: the first traversal's position
  is gone, and both continue from the new cursor.
\<close>

theorem proxy_is_its_own_iterator:
  "fst (py_iter self store) = self
   \<and> p_it (snd (py_iter self store) self) = getImageList (p_project (store self))
   \<and> fst (py_iter self (snd (py_nexts k (fst (py_iter self store)) (snd (py_iter self store)))))
       = fst (py_iter self store)
   \<and> snd (py_iter self (snd (py_nexts k (fst (py_iter self store)) (snd (py_iter self store)))))
       = snd (py_iter self store)"
  by (simp add: py_iter_def py_nexts_state proxy_iter_def)

theorem proxy_is_its_own_iterator_witness:
  "fst (py_iter 0 sample_store) = 0
   \<and> map (map_sum id (\<lambda>handle. getID (java_object handle)))
        (fst (py_nexts 1 (fst (py_iter 0 sample_store)) (snd (py_iter 0 sample_store))))
       = [Inr 0]
   \<and> map_sum id (\<lambda>handle. getID (java_object handle))
        (fst (py_next (fst (py_iter 0 sample_store))
           (snd (py_iter 0
             (snd (py_nexts 1 (fst (py_iter 0 sample_store)) (snd (py_iter 0 sample_store))))))))
       = Inr 0"
proof -
  have first: "map_sum id (\<lambda>handle. getID (java_object handle))
        (fst (py_next 0 (snd (py_iter 0 sample_store)))) = Inr 0"
    by (simp add: py_next_def py_iter_def proxy_iter_def proxy_next_def sample_store_def
        sample_proxy_def sample_project_def ProjectImageEntriesProxy_init_def
        ProjectImageEntry_def QuPathProjectImageEntry_init_def sample_entry_def)
  have same: "fst (py_iter 0 sample_store) = 0"
    and restart: "snd (py_iter 0
             (snd (py_nexts 1 (fst (py_iter 0 sample_store)) (snd (py_iter 0 sample_store)))))
          = snd (py_iter 0 sample_store)"
    using proxy_is_its_own_iterator [of 0 sample_store 1] by blast+
  have taken: "fst (py_nexts 1 0 (snd (py_iter 0 sample_store)))
          = [fst (py_next 0 (snd (py_iter 0 sample_store)))]"
    by (simp split: prod.splits)
  have one: "map (map_sum id (\<lambda>handle. getID (java_object handle)))
        (fst (py_nexts 1 (fst (py_iter 0 sample_store)) (snd (py_iter 0 sample_store))))
       = [Inr 0]"
    unfolding same taken using first by simp
  have again: "map_sum id (\<lambda>handle. getID (java_object handle))
        (fst (py_next (fst (py_iter 0 sample_store))
           (snd (py_iter 0
             (snd (py_nexts 1 (fst (py_iter 0 sample_store)) (snd (py_iter 0 sample_store))))))))
       = Inr 0"
    unfolding restart unfolding same by (rule first)
  from same one again show ?thesis by blast
qed

section \<open>Properties of the assignment to \<open>images\<close>\<close>

lemma images_check_TypeError:
  "\<exists>x \<in> set images. \<not> is_ProjectImageEntry x \<Longrightarrow> images_check images acc = Inl TypeError"
  by (induction images) auto

lemma images_check_pass:
  "\<forall>x \<in> set images. is_ProjectImageEntry x \<Longrightarrow> images_check images acc = Inr acc"
  by (induction images) auto

text \<open>
  C8, as the source has it: the assignment checks every element of the replacement
  sequence before it touches the collection; when some element is not an Entry Handle
  it returns, fails with \<open>TypeError\<close>, and the collection is exactly as it was before the
  assignment.
\<close>

theorem images_setter_checks_first:
  assumes "\<exists>x \<in> set images. \<not> is_ProjectImageEntry x"
  shows "images_setter env images self = Some (Inl TypeError, self)"
  using images_check_TypeError [OF assms] by (simp add: images_setter_def)

theorem images_setter_checks_first_witness:
  "(\<exists>x \<in> set [PyImageEntry sample_handle, PyStr ''sample.tiff'']. \<not> is_ProjectImageEntry x)
   \<and> images_setter sample_env [PyImageEntry sample_handle, PyStr ''sample.tiff''] sample_proxy
       = Some (Inl TypeError, sample_proxy)"
proof -
  have h: "\<exists>x \<in> set [PyImageEntry sample_handle, PyStr ''sample.tiff'']. \<not> is_ProjectImageEntry x"
    by simp
  show ?thesis
    using h images_setter_checks_first [OF h, of sample_env sample_proxy] by simp
qed

text \<open>
  C8 as the spec words it fails on the project that lists two entries, assigned a
  sequence whose only element is not an Entry Handle: in the spec's words the
  collection is cleared before the element is met, so the failure leaves it empty; the
  source fails before anything is cleared, and the collection still has its two
  entries.
\<close>

theorem images_setter_counterexample:
  "images_setter sample_env [PyNone] sample_proxy = Some (Inl TypeError, sample_proxy)
   \<and> proxy_len sample_proxy = 2
   \<and> fst (spec_images_replace [PyNone] sample_proxy) = Inl TypeError
   \<and> proxy_len (snd (spec_images_replace [PyNone] sample_proxy)) = 0
   \<and> images_setter sample_env [PyNone] sample_proxy
        \<noteq> Some (spec_images_replace [PyNone] sample_proxy)"
proof -
  have code: "images_setter sample_env [PyNone] sample_proxy = Some (Inl TypeError, sample_proxy)"
    by (simp add: images_setter_def)
  have len: "proxy_len sample_proxy = 2"
    by (simp add: proxy_len_def project_size_def sample_proxy_def sample_project_def
        ProjectImageEntriesProxy_init_def)
  have spec1: "fst (spec_images_replace [PyNone] sample_proxy) = Inl TypeError"
    by (simp add: spec_images_replace_def)
  have spec2: "proxy_len (snd (spec_images_replace [PyNone] sample_proxy)) = 0"
    by (simp add: spec_images_replace_def proxy_len_def project_size_def)
  have "snd (spec_images_replace [PyNone] sample_proxy) \<noteq> sample_proxy"
    using len spec2 by auto
  then have "Some (spec_images_replace [PyNone] sample_proxy) \<noteq> Some (Inl TypeError, sample_proxy)"
    by (metis option.inject snd_conv)
  with code len spec1 spec2 show ?thesis by simp
qed

subsection \<open>What the assignment does when every element is an Entry Handle\<close>

text \<open>
  The first loop never appends to \<open>_images\<close>, so the second loop has nothing to add: on
  a project without entries the assignment returns with the project still empty,
  whatever handles it was given.
\<close>

lemma pop_empty:
  "getImageList (p_project self) = [] \<Longrightarrow> pop self = (Inl KeyError, proxy_iter self)"
  by (simp add: pop_def proxy_iter_def proxy_next_def)

lemma clear_empty:
  "getImageList (p_project self) = [] \<Longrightarrow> clear self = Some (Inr (), proxy_iter self)"
  by (subst clear.simps) (simp add: pop_empty)

lemma images_setter_adds_nothing:
  assumes "\<forall>x \<in> set images. is_ProjectImageEntry x" and "getImageList (p_project self) = []"
  shows "images_setter env images self = Some (Inr (), proxy_iter self)"
  using images_check_pass [OF assms(1)] clear_empty [OF assms(2)]
  by (simp add: images_setter_def)

text \<open>
  \<open>discard\<close> removes nothing, so \<open>pop\<close> leaves the project as it is and the loop of
  \<open>clear\<close> meets the same first entry again: \<open>clear\<close> returns only from a state in which
  \<open>clear_may_return\<close> holds, and on a project that lists a readable entry it does not
  return, nor does an assignment of Entry Handles to \<open>images\<close>.
\<close>

lemma pop_project: "p_project (snd (pop self)) = p_project self"
  by (simp add: pop_def proxy_iter_def proxy_next_def discard_def Let_def
      split: list.splits sum.splits)

lemma pop_nonempty_readable:
  assumes "getImageList (p_project self) = entry # rest"
    and "readImageData (entries (p_project self) entry) \<noteq> None"
  shows "\<exists>v self1. pop self = (Inr v, self1)"
  using assms
  by (auto simp: pop_def proxy_iter_def proxy_next_def discard_def ProjectImageEntry_def
      QuPathProjectImageEntry_init_def Let_def)

lemma clear_returns_only_if:
  assumes "clear self = Some y"
  shows "clear_may_return self"
proof (rule clear.raw_induct [where P = "\<lambda>self y. clear_may_return self", OF _ assms])
  fix f :: "ProjectImageEntriesProxy \<Rightarrow> ((error + unit) \<times> ProjectImageEntriesProxy) option"
  fix self y
  assume IH: "\<And>x y. f x = Some y \<Longrightarrow> clear_may_return x"
  assume body: "(case pop self of
        (Inl e, self1) \<Rightarrow> (if e = KeyError then Some (Inr (), self1) else Some (Inl e, self1))
      | (Inr v, self1) \<Rightarrow> f self1) = Some y"
  show "clear_may_return self"
  proof (rule ccontr)
    assume contra: "\<not> clear_may_return self"
    then obtain entry rest where l: "getImageList (p_project self) = entry # rest"
      by (cases "getImageList (p_project self)") (auto simp: clear_may_return_def)
    with contra have r: "readImageData (entries (p_project self) entry) \<noteq> None"
      by (simp add: clear_may_return_def)
    from pop_nonempty_readable [OF l r] obtain v self1 where p: "pop self = (Inr v, self1)"
      by blast
    with body have "f self1 = Some y" by simp
    then have "clear_may_return self1" by (rule IH)
    moreover have "p_project self1 = p_project self" using pop_project [of self] p by simp
    ultimately show False using contra by (simp add: clear_may_return_def l)
  qed
qed

lemma clear_diverges:
  assumes "getImageList (p_project self) = entry # rest"
    and "readImageData (entries (p_project self) entry) \<noteq> None"
  shows "clear self = None"
proof (cases "clear self")
  case (Some y)
  from clear_returns_only_if [OF this] assms show ?thesis by (simp add: clear_may_return_def)
qed simp

lemma images_setter_diverges:
  assumes "\<forall>x \<in> set images. is_ProjectImageEntry x"
    and "getImageList (p_project self) = entry # rest"
    and "readImageData (entries (p_project self) entry) \<noteq> None"
  shows "images_setter env images self = None"
  using images_check_pass [OF assms(1)] clear_diverges [OF assms(2,3)]
  by (simp add: images_setter_def)

end
